theory Spec2Isabelle
  imports Main "HOL-Library.AList" "HOL-Library.Sublist"
begin

section \<open>Shared vocabulary: errors and messages\<close>

text \<open>
  The two managers of the repository are Python classes whose methods mutate the object
  and call into Twisted, the operating system and the communication manager. Each method
  is embedded as a function from the manager's state to its result and the state it leaves;
  a raised exception is the \<open>Inl\<close> of the result, paired with the state at the
  moment of the raise (Python keeps every assignment made before it). A method whose Python
  name starts with an underscore is written without it (\<open>_getContainer\<close> is
  \<open>getContainer\<close>); \<open>_startContainer\<close>, which has a public namesake, is
  \<open>startContainer_internal\<close>.
\<close>

datatype error =
    InvalidRequest string
  | InternalError string
  | ValueError string
  | IndexError
  | OSError
  | IOError
  | TypeError

text \<open>
  \<open>MsgTypes\<close> and \<open>MsgDef.MASTER_ADDR\<close> are constants of the module
  \<open>Comm.Message\<close>, which is not among the sources; they are kept symbolic. The names
  are the ones the source and the message table of the specification use.
\<close>

datatype msgType =
    ID_REQUEST | ID_RESPONSE | ID_DELETE | CONNECT_DIRECTIVE
  | START_CONTAINER | STOP_CONTAINER | ROUTE_INFO | ROS_ADD | ROS_REMOVE | ROS_MSG

datatype msgDest = MASTER_ADDR | NodeAddr string

record message =
  msgType :: msgType
  dest :: msgDest
  content :: "string list"

section \<open>SatelliteUtil/Manager.py: the satellite manager\<close>

subsection \<open>The container record\<close>

text \<open>
  Modelled from the spec: the class \<open>Container\<close> (module \<open>_Container\<close>) is
  imported by SatelliteUtil/Manager.py but is not among the sources. Section 3 of the
  specification gives its fields: \<open>address\<close>, \<open>ownerRobot\<close>, \<open>homeDir\<close>
  (here \<open>home\<close>, as the managers use the other name for arguments), \<open>connected\<close>
  (default false) and \<open>nodes\<close>.
\<close>

record container =
  address :: string
  ownerRobot :: string
  home :: string
  connected :: bool
  nodes :: "string list"

text \<open>
  Modelled from the spec: \<open>Container.checkOwner\<close> is missing with the class. Section 4.3:
  "\<open>checkOwner(robotID)\<close> returns true only if \<open>robotID == ownerRobot\<close>".
\<close>

definition checkOwner :: "container \<Rightarrow> string \<Rightarrow> bool" where
  "checkOwner c robotID = (robotID = ownerRobot c)"

text \<open>
  Modelled from the spec: \<open>Container.setConnectedFlag\<close> is missing with the class.
  Section 4.5: "Otherwise update \<open>connected\<close>".
\<close>

definition setConnectedFlag :: "container \<Rightarrow> bool \<Rightarrow> container" where
  "setConnectedFlag c flag = c\<lparr>connected := flag\<rparr>"

text \<open>
  The remaining members of the missing class that the manager calls are parameters of the
  model: the constructor \<open>Container(commID, homeFolder)\<close>, and \<open>start\<close> and
  \<open>stop\<close>, which receive the communication manager and so can change the record and
  send messages. The file-system test \<open>os.path.isdir\<close> and the missing
  \<open>Comm.CommUtil.validateAddress\<close> are parameters as well.
\<close>

record collaborators =
  validateAddress :: "string \<Rightarrow> bool"
  isdir :: "string \<Rightarrow> bool"
  Container :: "string \<Rightarrow> string \<Rightarrow> container"
  start :: "container \<Rightarrow> container \<times> message list"
  stop :: "container \<Rightarrow> message list"

subsection \<open>State of the manager\<close>

text \<open>
  \<open>_containers\<close> is a Python dict; it is an association list here, read with
  \<open>map_of\<close>, written with \<open>AList.update\<close> and \<open>AList.delete\<close>, so that
  \<open>keys()\<close> is a list as in Python 2. A \<open>Deferred\<close> is an object with an identity:
  the \<open>n\<close>-th one created by the manager is the number \<open>n\<close>, and
  \<open>callbacks\<close> is the trace of the calls \<open>deferred.callback(commID)\<close> in the order
  in which they happened. \<open>sent\<close> is what was handed to \<open>commMngr.sendMessage\<close>,
  \<open>log\<close> what was handed to \<open>log.msg\<close>.
\<close>

record satellite =
  containers :: "(string \<times> container) list"
  pendingCommIDReq :: "nat list"
  nextDeferred :: nat
  callbacks :: "(nat \<times> string) list"
  sent :: "message list"
  log :: "string list"

definition SatelliteManager_init :: satellite where
  "SatelliteManager_init =
     \<lparr>containers = [], pendingCommIDReq = [], nextDeferred = 0, callbacks = [],
      sent = [], log = []\<rparr>"

subsection \<open>Management: requesting and receiving communication IDs\<close>

definition getNewCommID :: "satellite \<Rightarrow> nat \<times> satellite" where
  "getNewCommID s =
     (let deferred = nextDeferred s in
      (deferred,
       s\<lparr>nextDeferred := Suc deferred,
         pendingCommIDReq := pendingCommIDReq s @ [deferred],
         sent := sent s @ [\<lparr>msgType = ID_REQUEST, dest = MASTER_ADDR, content = []\<rparr>]\<rparr>))"

text \<open>
  \<open>self._pendingCommIDReq.pop().callback(commID)\<close>: \<open>list.pop()\<close> without an index
  removes and returns the last element, and raises \<open>IndexError\<close> on an empty list.
\<close>

definition setNewCommID :: "satellite \<Rightarrow> string \<Rightarrow> (error + unit) \<times> satellite" where
  "setNewCommID s commID =
     (if pendingCommIDReq s = [] then (Inl IndexError, s)
      else (Inr (),
            s\<lparr>pendingCommIDReq := butlast (pendingCommIDReq s),
              callbacks := callbacks s @ [(last (pendingCommIDReq s), commID)]\<rparr>))"

text \<open>The value a deferred was fired with, if it was fired.\<close>

definition resolvedWith :: "satellite \<Rightarrow> nat \<Rightarrow> string option" where
  "resolvedWith s deferred = map_of (callbacks s) deferred"

text \<open>
  \<open>n\<close> requests one after the other, returning the deferreds in the order of the calls;
  and a list of responses delivered one after the other, stopping at the first exception.
\<close>

fun requests :: "nat \<Rightarrow> satellite \<Rightarrow> nat list \<times> satellite" where
  "requests 0 s = ([], s)"
| "requests (Suc n) s =
     (let (d, s1) = getNewCommID s; (ds, s2) = requests n s1 in (d # ds, s2))"

fun responses :: "string list \<Rightarrow> satellite \<Rightarrow> error + satellite" where
  "responses [] s = Inr s"
| "responses (commID # rest) s =
     (case setNewCommID s commID of
        (Inl e, _) \<Rightarrow> Inl e
      | (Inr _, s1) \<Rightarrow> responses rest s1)"

text \<open>
  The ordering the specification asks for, in its words: after \<open>n\<close> requests and the
  \<open>n\<close> responses \<open>cs\<close>, the \<open>i\<close>-th request is resolved with the \<open>i\<close>-th
  response.
\<close>

definition fifoResolution :: "satellite \<Rightarrow> string list \<Rightarrow> bool" where
  "fifoResolution s cs =
     (case responses cs (snd (requests (length cs) s)) of
        Inl e \<Rightarrow> False
      | Inr s2 \<Rightarrow> map (resolvedWith s2) (fst (requests (length cs) s)) = map Some cs)"


text \<open>
  The same run measured against the opposite order: the \<open>i\<close>-th request is resolved
  with the \<open>i\<close>-th response counted from the end.
\<close>

definition lifoResolution :: "satellite \<Rightarrow> string list \<Rightarrow> bool" where
  "lifoResolution s cs =
     (case responses cs (snd (requests (length cs) s)) of
        Inl e \<Rightarrow> False
      | Inr s2 \<Rightarrow> map (resolvedWith s2) (fst (requests (length cs) s)) = map Some (rev cs))"

text \<open>Every deferred in the trace was created before now; so a new deferred is not in it.\<close>

definition firedEarlier :: "satellite \<Rightarrow> bool" where
  "firedEarlier s = list_all (\<lambda>(d, c). d < nextDeferred s) (callbacks s)"

text \<open>
  The pending list holds deferreds the manager created, in the order of their creation: a
  later entry is a later request.
\<close>

definition issueOrdered :: "satellite \<Rightarrow> bool" where
  "issueOrdered s =
     (sorted_wrt (<) (pendingCommIDReq s) \<and>
      list_all (\<lambda>d. d < nextDeferred s) (pendingCommIDReq s))"


subsection \<open>Containers\<close>

text \<open>
  \<open>if not container\<close> tests the value \<open>dict.get\<close> returned; a stored
  \<open>Container\<close> instance is taken to be true, as an instance of a class without
  \<open>__nonzero__\<close> and \<open>__len__\<close> is, so the test fails only for the default
  \<open>None\<close>.
\<close>

definition getContainer :: "satellite \<Rightarrow> string \<Rightarrow> string \<Rightarrow> error + container" where
  "getContainer s robotID containerID =
     (case map_of (containers s) containerID of
        None \<Rightarrow> Inl (InvalidRequest ''ContainerID does not match any container.'')
      | Some container \<Rightarrow>
          if \<not> checkOwner container robotID
          then Inl (InvalidRequest ''Robot is not the owner of the container.'')
          else Inr container)"

text \<open>
  \<open>processRobotSpecs\<close> is the callback \<open>createContainer\<close> attaches to the
  \<open>DeferredList\<close> of its two lookups. It receives one pair (success flag, value) for
  the robot's home folder and one for the new communication ID.
\<close>

definition processRobotSpecs ::
  "collaborators \<Rightarrow> satellite \<Rightarrow> (bool \<times> string) \<times> (bool \<times> string) \<Rightarrow> satellite" where
  "processRobotSpecs E s results =
     (if \<not> (fst (fst results) \<and> fst (snd results))
      then s\<lparr>log := log s @ [''Could not get necessary data to start a new container.'']\<rparr>
      else
        let homeFolder = snd (fst results);
            commID = snd (snd results)
        in if \<not> validateAddress E commID
           then s\<lparr>log := log s @ [''The CommID is not a valid address.'']\<rparr>
           else if map_of (containers s) commID \<noteq> None
           then s\<lparr>log := log s @ [''There is already a container with the same CommID.'']\<rparr>
           else if \<not> isdir E homeFolder
           then s\<lparr>log := log s @ [''The home folder is not a valid directory.'']\<rparr>
           else
             let container = Container E commID homeFolder;
                 started = start E container
             in s\<lparr>sent := sent s @ snd started,
                  containers := AList.update commID (fst started) (containers s)\<rparr>)"

definition setConnectedFlagContainer ::
  "satellite \<Rightarrow> string \<Rightarrow> bool \<Rightarrow> (error + unit) \<times> satellite" where
  "setConnectedFlagContainer s commID flag =
     (case map_of (containers s) commID of
        None \<Rightarrow>
          if flag then (Inl (InvalidRequest ''CommID does not match any container.''), s)
          else (Inr (), s)
      | Some container \<Rightarrow>
          (Inr (),
           s\<lparr>containers :=
               AList.update commID (setConnectedFlag container flag) (containers s)\<rparr>))"

definition destroyContainer ::
  "collaborators \<Rightarrow> satellite \<Rightarrow> string \<Rightarrow> string \<Rightarrow> (error + unit) \<times> satellite" where
  "destroyContainer E s robotID containerID =
     (case getContainer s robotID containerID of
        Inl e \<Rightarrow> (Inl e, s)
      | Inr container \<Rightarrow>
          (Inr (),
           s\<lparr>sent := sent s @ stop E container,
             containers := AList.delete containerID (containers s)\<rparr>))"

subsection \<open>ROS operations\<close>

text \<open>
  Each of these resolves the container with \<open>getContainer\<close> and then calls into the
  missing class (and, for \<open>addNode\<close>, into the missing database interface). What
  follows the owner check is the parameter \<open>m\<close>: its result, the record it leaves and
  the messages it sends.
\<close>

type_synonym containerMethod = "container \<Rightarrow> (error + unit) \<times> container \<times> message list"

definition callMethod ::
  "satellite \<Rightarrow> string \<Rightarrow> containerMethod \<Rightarrow> container \<Rightarrow> (error + unit) \<times> satellite" where
  "callMethod s containerID m container =
     (fst (m container),
      s\<lparr>containers := AList.update containerID (fst (snd (m container))) (containers s),
        sent := sent s @ snd (snd (m container))\<rparr>)"

definition addNode ::
  "containerMethod \<Rightarrow> satellite \<Rightarrow> string \<Rightarrow> string \<Rightarrow> (error + unit) \<times> satellite" where
  "addNode m s robotID containerID =
     (case getContainer s robotID containerID of
        Inl e \<Rightarrow> (Inl e, s)
      | Inr container \<Rightarrow> callMethod s containerID m container)"

definition sendROSMsgToContainer ::
  "containerMethod \<Rightarrow> satellite \<Rightarrow> string \<Rightarrow> string \<Rightarrow> (error + unit) \<times> satellite" where
  "sendROSMsgToContainer m s robotID containerID =
     (case getContainer s robotID containerID of
        Inl e \<Rightarrow> (Inl e, s)
      | Inr container \<Rightarrow> callMethod s containerID m container)"

definition sendROSMsgToRobot ::
  "containerMethod \<Rightarrow> satellite \<Rightarrow> string \<Rightarrow> string \<Rightarrow> (error + unit) \<times> satellite" where
  "sendROSMsgToRobot m s robotID containerID =
     (case getContainer s robotID containerID of
        Inl e \<Rightarrow> (Inl e, s)
      | Inr container \<Rightarrow> callMethod s containerID m container)"

definition removeNode ::
  "containerMethod \<Rightarrow> satellite \<Rightarrow> string \<Rightarrow> string \<Rightarrow> (error + unit) \<times> satellite" where
  "removeNode m s robotID containerID =
     (case getContainer s robotID containerID of
        Inl e \<Rightarrow> (Inl e, s)
      | Inr container \<Rightarrow> callMethod s containerID m container)"

subsection \<open>Routing\<close>

definition getSatelliteRouting :: "satellite \<Rightarrow> string list" where
  "getSatelliteRouting s = map fst (containers s)"

text \<open>
  The first scenario of the specification: robot \<open>robot-A\<close> owns the one container,
  registered under \<open>SATL0042\<close>.
\<close>

definition scenarioContainer :: container where
  "scenarioContainer =
     \<lparr>address = ''SATL0042'', ownerRobot = ''robot-A'', home = ''/home/ros/A'',
      connected = False, nodes = []\<rparr>"

definition scenarioSatellite :: satellite where
  "scenarioSatellite = SatelliteManager_init\<lparr>containers := [(''SATL0042'', scenarioContainer)]\<rparr>"

definition scenarioCollaborators :: collaborators where
  "scenarioCollaborators =
     \<lparr>validateAddress = (\<lambda>a. length a = 8),
      isdir = (\<lambda>p. p = ''/home/ros/A'' \<or> p = ''/home/ros/B''),
      Container = (\<lambda>commID homeFolder.
        \<lparr>address = commID, ownerRobot = ''robot-A'', home = homeFolder,
         connected = False, nodes = []\<rparr>),
      start = (\<lambda>c. (c, [\<lparr>msgType = START_CONTAINER, dest = NodeAddr ''SATL0000'',
                            content = [address c, home c]\<rparr>])),
      stop = (\<lambda>c. [\<lparr>msgType = STOP_CONTAINER, dest = NodeAddr ''SATL0000'',
                        content = [address c]\<rparr>])\<rparr>"

definition scenarioMethod :: containerMethod where
  "scenarioMethod c = (Inr (), c\<lparr>nodes := ''node-1'' # nodes c\<rparr>, [])"


section \<open>ContainerUtil/Manager.py: the container manager\<close>

subsection \<open>Paths, strings and the file system\<close>

text \<open>
  \<open>str.join\<close>, and \<open>os.path.join\<close>, \<open>os.path.isabs\<close> and
  \<open>os.path.dirname\<close> as \<open>posixpath\<close> defines them. \<open>os.path.join\<close> starts
  again at a component that begins with a slash, and puts a slash between two components
  unless the path so far is empty or ends with one.
\<close>

fun str_join :: "string \<Rightarrow> string list \<Rightarrow> string" where
  "str_join sep [] = []"
| "str_join sep [x] = x"
| "str_join sep (x # y # ys) = x @ sep @ str_join sep (y # ys)"

definition startswith_slash :: "string \<Rightarrow> bool" where
  "startswith_slash p = (case p of [] \<Rightarrow> False | c # _ \<Rightarrow> c = CHR ''/'')"

definition endswith_slash :: "string \<Rightarrow> bool" where
  "endswith_slash p = (p \<noteq> [] \<and> last p = CHR ''/'')"

definition join_step :: "string \<Rightarrow> string \<Rightarrow> string" where
  "join_step path b =
     (if startswith_slash b then b
      else if path = [] \<or> endswith_slash path then path @ b
      else path @ ''/'' @ b)"

definition os_path_join :: "string \<Rightarrow> string list \<Rightarrow> string" where
  "os_path_join a p = foldl join_step a p"

definition os_path_isabs :: "string \<Rightarrow> bool" where
  "os_path_isabs s = startswith_slash s"

definition os_path_dirname :: "string \<Rightarrow> string" where
  "os_path_dirname p =
     (let head = rev (dropWhile (\<lambda>c. c \<noteq> CHR ''/'') (rev p)) in
      if head \<noteq> [] \<and> head \<noteq> replicate (length head) (CHR ''/'')
      then rev (dropWhile (\<lambda>c. c = CHR ''/'') (rev head))
      else head)"

text \<open>
  The part of the file system the manager touches: the directories that exist and the
  regular files with their contents, both named by the path string the manager builds.
  \<open>os.mkdir\<close> raises \<open>OSError\<close> when the path exists or its parent is not a
  directory; opening a file for writing raises \<open>IOError\<close> when the path is a directory
  or its parent is not one, and otherwise replaces the content.
\<close>

record filesystem =
  dirs :: "string set"
  files :: "string \<rightharpoonup> string"

definition os_path_isdir :: "filesystem \<Rightarrow> string \<Rightarrow> bool" where
  "os_path_isdir f p = (p \<in> dirs f)"

definition os_mkdir :: "string \<Rightarrow> filesystem \<Rightarrow> error + filesystem" where
  "os_mkdir p f =
     (if p \<in> dirs f \<or> files f p \<noteq> None then Inl OSError
      else if os_path_dirname p \<notin> dirs f then Inl OSError
      else Inr (f\<lparr>dirs := insert p (dirs f)\<rparr>))"

definition write_file :: "string \<Rightarrow> string \<Rightarrow> filesystem \<Rightarrow> error + filesystem" where
  "write_file p text f =
     (if p \<in> dirs f then Inl IOError
      else if os_path_dirname p \<notin> dirs f then Inl IOError
      else Inr (f\<lparr>files := (files f)(p \<mapsto> text)\<rparr>))"

subsection \<open>State of the manager\<close>

text \<open>
  \<open>confDir\<close>, \<open>rootfs\<close> and \<open>srcRoot\<close> are read from \<open>settings\<close> by the
  constructor; \<open>commIDs\<close> is the list \<open>_commIDs\<close>. \<open>spawned\<close> holds the argument
  lists handed to \<open>reactor.spawnProcess\<close>, \<open>outbox\<close> the messages handed to the
  communication manager, \<open>journal\<close> the lines handed to \<open>log.msg\<close>.
\<close>

record containerManager =
  confDir :: string
  rootfs :: string
  srcRoot :: string
  commIDs :: "string list"
  fs :: filesystem
  spawned :: "string list list"
  outbox :: "message list"
  journal :: "string list"

definition ContainerManager_init ::
  "string \<Rightarrow> string \<Rightarrow> string \<Rightarrow> filesystem \<Rightarrow> error + containerManager" where
  "ContainerManager_init CONF_DIR ROOTFS ROOT_DIR f =
     (if \<not> os_path_isabs CONF_DIR
      then Inl (ValueError ''Configuration directory is not an absolute path.'')
      else if \<not> os_path_isabs ROOTFS
      then Inl (ValueError ''Root file system directory is not an absolute path.'')
      else if \<not> os_path_isabs ROOT_DIR
      then Inl (ValueError ''Root source directory is not an absolute path.'')
      else Inr \<lparr>confDir = CONF_DIR, rootfs = ROOTFS, srcRoot = ROOT_DIR, commIDs = [],
                fs = f, spawned = [], outbox = [], journal = []\<rparr>)"

subsection \<open>The three generated files\<close>

definition configContent :: "containerManager \<Rightarrow> string \<Rightarrow> string" where
  "configContent s commID =
     str_join ''\<newline>''
       [''lxc.utsname = ros'',
        [],
        ''lxc.tty = 4'',
        ''lxc.pts = 1024'',
        ''lxc.rootfs = '' @ rootfs s,
        ''lxc.mount = '' @ os_path_join (confDir s) [commID, ''fstab''],
        [],
        ''lxc.network.type = veth'',
        ''lxc.network.flags = up'',
        ''lxc.network.name = eth0'',
        ''lxc.network.link = br0'',
        ''lxc.network.ipv4 = 0.0.0.0'',
        [],
        ''lxc.cgroup.devices.deny = a'',
        ''# /dev/null and zero'',
        ''lxc.cgroup.devices.allow = c 1:3 rwm'',
        ''lxc.cgroup.devices.allow = c 1:5 rwm'',
        ''# consoles'',
        ''lxc.cgroup.devices.allow = c 5:1 rwm'',
        ''lxc.cgroup.devices.allow = c 5:0 rwm'',
        ''lxc.cgroup.devices.allow = c 4:0 rwm'',
        ''lxc.cgroup.devices.allow = c 4:1 rwm'',
        ''# /dev/{,u}random'',
        ''lxc.cgroup.devices.allow = c 1:9 rwm'',
        ''lxc.cgroup.devices.allow = c 1:8 rwm'',
        ''lxc.cgroup.devices.allow = c 136:* rwm'',
        ''lxc.cgroup.devices.allow = c 5:2 rwm'',
        ''# rtc'',
        ''lxc.cgroup.devices.allow = c 254:0 rwm'',
        []]"

definition fstabContent :: "containerManager \<Rightarrow> string \<Rightarrow> string \<Rightarrow> string" where
  "fstabContent s commID homeDir =
     str_join ''\<newline>''
       [''proc     '' @ os_path_join (rootfs s) [''proc'']
          @ ''      proc     nodev,noexec,nosuid 0 0'',
        ''devpts   '' @ os_path_join (rootfs s) [''dev/pts'']
          @ ''   devpts   defaults            0 0'',
        ''sysfs    '' @ os_path_join (rootfs s) [''sys'']
          @ ''       sysfs    defaults            0 0'',
        homeDir @ ''   '' @ os_path_join (rootfs s) [''home/ros''] @ ''   none   bind 0 0'',
        srcRoot s @ ''   '' @ os_path_join (rootfs s) [''opt/reappengine'']
          @ ''   none   bind,ro 0 0'',
        os_path_join (confDir s) [commID, ''upstart''] @ ''   ''
          @ os_path_join (rootfs s) [''etc/init/reappengine.conf'']
          @ ''   none   bind,ro 0 0'',
        []]"

text \<open>
  The command of the upstart script is the list the source joins with blanks. The
  communication ID is an argument of \<open>_createUpstartScript\<close> but occurs in the path of
  the file only, not in its text.
\<close>

definition upstartCommand :: "string list" where
  "upstartCommand =
     [''start-stop-daemon'',
      ''-c'', ''ros:ros'',
      ''-d'', ''/home/ros'',
      ''--retry'', ''5'',
      ''--exec'', ''python'',
      ''--'',
      ''/home/ros/lib/framework/Administration/src/Dummy.py'',
      ''8090'']"

definition upstartContent :: string where
  "upstartContent =
     str_join ''\<newline>''
       [''# description'',
        ''author \"Dominique Hunziker\"'',
        ''description \"reappengine - ROS framework for managing and using ROS nodes\"'',
        [],
        ''# start/stop conditions'',
        ''start on runlevel [2345]'',
        ''stop on runlevel [016])'',
        [],
        ''# timeout before the process is killed; generous as a lot of processes have'',
        ''# to be terminated by the reappengine'',
        ''kill timeout 30'',
        [],
        ''script'',
        CHR 0x09 # ''# setup environment'',
        CHR 0x09 # ''. /etc/environment'',
        [CHR 0x09],
        CHR 0x09 # ''# start environment node'',
        CHR 0x09 # str_join '' '' upstartCommand,
        ''end script'',
        []]"

definition writeTo ::
  "containerManager \<Rightarrow> string \<Rightarrow> string \<Rightarrow> (error + unit) \<times> containerManager" where
  "writeTo s p text =
     (case write_file p text (fs s) of
        Inl e \<Rightarrow> (Inl e, s)
      | Inr f \<Rightarrow> (Inr (), s\<lparr>fs := f\<rparr>))"

definition createConfigFile ::
  "containerManager \<Rightarrow> string \<Rightarrow> (error + unit) \<times> containerManager" where
  "createConfigFile s commID =
     writeTo s (os_path_join (confDir s) [commID, ''config'']) (configContent s commID)"

definition createFstabFile ::
  "containerManager \<Rightarrow> string \<Rightarrow> string \<Rightarrow> (error + unit) \<times> containerManager" where
  "createFstabFile s commID homeDir =
     (if \<not> os_path_isabs homeDir
      then (Inl (ValueError ''Home directory is not an absoulte path.''), s)
      else writeTo s (os_path_join (confDir s) [commID, ''fstab''])
             (fstabContent s commID homeDir))"

definition createUpstartScript ::
  "containerManager \<Rightarrow> string \<Rightarrow> (error + unit) \<times> containerManager" where
  "createUpstartScript s commID =
     writeTo s (os_path_join (confDir s) [commID, ''upstart'']) upstartContent"

subsection \<open>Starting and stopping\<close>

text \<open>
  The list \<open>cmd\<close> that \<open>_startContainer\<close> builds last. The call of
  \<open>spawnProcess\<close> that follows it in the source is a comment, so the function ends
  after the assignment.
\<close>

definition lxcStartCmd :: "containerManager \<Rightarrow> string \<Rightarrow> string list" where
  "lxcStartCmd s commID =
     [''/usr/bin/lxc-start'',
      ''-n'', commID,
      ''-f'', os_path_join (confDir s) [commID, ''config''],
      ''-d'']"

definition startContainer_internal ::
  "containerManager \<Rightarrow> string \<Rightarrow> string \<Rightarrow> (error + unit) \<times> containerManager" where
  "startContainer_internal s commID homeDir =
     (if os_path_isdir (fs s) (os_path_join (confDir s) [commID])
      then (Inr (),
            s\<lparr>journal := journal s @
               [''There exists already a directory with the name \"'' @ commID @ ''\".'']\<rparr>)
      else
        case os_mkdir (os_path_join (confDir s) [commID]) (fs s) of
          Inl e \<Rightarrow> (Inl e, s)
        | Inr f \<Rightarrow>
            (case createConfigFile (s\<lparr>fs := f, journal := journal s @ [''Create files...'']\<rparr>)
                    commID of
               (Inl e, s1) \<Rightarrow> (Inl e, s1)
             | (Inr _, s1) \<Rightarrow>
                 (case createFstabFile s1 commID homeDir of
                    (Inl e, s2) \<Rightarrow> (Inl e, s2)
                  | (Inr _, s2) \<Rightarrow>
                      (case createUpstartScript s2 commID of
                         (Inl e, s3) \<Rightarrow> (Inl e, s3)
                       | (Inr _, s3) \<Rightarrow>
                           (Inr (), s3\<lparr>journal := journal s3 @ [''Start container...'']\<rparr>)))))"

definition startContainer ::
  "containerManager \<Rightarrow> string \<Rightarrow> string \<Rightarrow> (error + unit) \<times> containerManager" where
  "startContainer s commID homeDir =
     (if commID \<in> set (commIDs s)
      then (Inr (),
            s\<lparr>journal := journal s @
               [''There is already a container registered under the same CommID.'']\<rparr>)
      else startContainer_internal (s\<lparr>commIDs := commIDs s @ [commID]\<rparr>) commID homeDir)"

text \<open>
  \<open>_stopContainer\<close> up to its return: it spawns \<open>lxc-stop\<close>. The callback it leaves
  on the deferred runs when the process has ended and is not part of this function.
\<close>

definition stopContainer_internal :: "containerManager \<Rightarrow> string \<Rightarrow> containerManager" where
  "stopContainer_internal s commID =
     s\<lparr>spawned := spawned s @ [[''/usr/bin/lxc-stop'', ''-n'', commID]]\<rparr>"

text \<open>
  What the specification expects of a start whose directory exists already, in its words: the
  error is logged, no registration remains for the address, and the address is released to
  the master with an \<open>ID_DELETE\<close>.
\<close>

definition duplicateHandledAsSpecified ::
  "containerManager \<Rightarrow> containerManager \<Rightarrow> string \<Rightarrow> bool" where
  "duplicateHandledAsSpecified s s' commID =
     (length (journal s') = Suc (length (journal s)) \<and>
      commID \<notin> set (commIDs s') \<and>
      \<lparr>msgType = ID_DELETE, dest = MASTER_ADDR, content = [commID]\<rparr> \<in> set (outbox s'))"

text \<open>
  The scenarios of the specification: a manager whose configuration directory exists and is
  empty, and one in which the directory of \<open>SATL0099\<close> is there before the start.
\<close>

definition scenarioManager :: containerManager where
  "scenarioManager =
     \<lparr>confDir = ''/opt/rce/conf'', rootfs = ''/opt/rce/rootfs'', srcRoot = ''/opt/rce/src'',
      commIDs = [],
      fs = \<lparr>dirs = {''/opt/rce/conf''}, files = Map.empty\<rparr>,
      spawned = [], outbox = [], journal = []\<rparr>"

definition scenarioDuplicate :: containerManager where
  "scenarioDuplicate =
     scenarioManager\<lparr>fs := \<lparr>dirs = {''/opt/rce/conf'', ''/opt/rce/conf/SATL0099''},
                             files = Map.empty\<rparr>\<rparr>"


subsection \<open>Shutdown\<close>

text \<open>
  \<open>shutil.rmtree\<close> raises \<open>OSError\<close> unless the path is a directory, and otherwise
  removes the directory with everything below it.
\<close>

definition below :: "string \<Rightarrow> string \<Rightarrow> bool" where
  "below p q = (q = p \<or> prefix (p @ ''/'') q)"

definition shutil_rmtree :: "string \<Rightarrow> filesystem \<Rightarrow> error + filesystem" where
  "shutil_rmtree p f =
     (if p \<notin> dirs f then Inl OSError
      else Inr \<lparr>dirs = {d \<in> dirs f. \<not> below p d},
                files = (\<lambda>q. if below p q then None else files f q)\<rparr>)"

text \<open>
  The \<open>reason\<close> a process protocol is given when its process has ended: the exit code, and
  the text \<open>log.msg\<close> prints for it.
\<close>

record reason =
  exitCode :: int
  description :: string

text \<open>
  The callback that \<open>_stopContainer\<close> adds to its deferred;
  \<open>LXCProtocol.processEnded\<close> fires the deferred with the reason. An exception of
  \<open>rmtree\<close> stays in the deferred as its failure and reaches no caller.
\<close>

definition stopContainer_callback ::
  "containerManager \<Rightarrow> string \<Rightarrow> reason \<Rightarrow> containerManager" where
  "stopContainer_callback s commID r =
     (let s1 = (if exitCode r \<noteq> 0 then s\<lparr>journal := journal s @ [description r]\<rparr> else s) in
      case shutil_rmtree (os_path_join (confDir s1) [commID]) (fs s1) of
        Inl e \<Rightarrow> s1
      | Inr f \<Rightarrow> s1\<lparr>fs := f\<rparr>)"

text \<open>
  A run of \<open>shutdown\<close>: the manager, the deferreds of the processes it spawned that have
  not ended yet (each named by the communication ID of its process), and the flag of the
  \<open>threading.Event\<close> it created.
\<close>

record shutdownRun =
  manager :: containerManager
  awaiting :: "string list"
  eventFlag :: bool

text \<open>
  \<open>shutdown\<close> gives the \<open>DeferredList\<close> the bound method \<open>event.set\<close> as its
  callback. \<open>Event.set\<close> takes no argument: called without one it sets the flag, called
  with any it raises \<open>TypeError\<close>. A deferred calls its callback with its result as the
  argument, and an exception the callback raises stays in the deferred as its failure.
\<close>

datatype callable = Event_set

definition call :: "callable \<Rightarrow> nat \<Rightarrow> shutdownRun \<Rightarrow> error + shutdownRun" where
  "call f nargs r =
     (case f of
        Event_set \<Rightarrow> if nargs = 0 then Inr (r\<lparr>eventFlag := True\<rparr>) else Inl TypeError)"

definition fire :: "callable \<Rightarrow> shutdownRun \<Rightarrow> shutdownRun" where
  "fire f r = (case call f 1 r of Inl e \<Rightarrow> r | Inr r' \<Rightarrow> r')"

text \<open>
  \<open>shutdown\<close> up to \<open>event.wait()\<close>: one \<open>_stopContainer\<close> for each registered
  communication ID, then the \<open>DeferredList\<close> of the deferreds with its callback. A
  \<open>DeferredList\<close> of no deferreds fires when it is built, so the callback runs as soon
  as it is added.
\<close>

definition shutdown_stops :: "containerManager \<Rightarrow> shutdownRun" where
  "shutdown_stops s =
     (let r = \<lparr>manager = foldl stopContainer_internal s (commIDs s),
               awaiting = commIDs s, eventFlag = False\<rparr>
      in if awaiting r = [] then fire Event_set r else r)"

text \<open>
  The reactor reports the end of the process of a communication ID: the deferred of the
  process fires and runs its callback, and the \<open>DeferredList\<close> fires when that was the
  last deferred it waited for.
\<close>

definition processEnded :: "string \<times> reason \<Rightarrow> shutdownRun \<Rightarrow> shutdownRun" where
  "processEnded e r =
     (if fst e \<notin> set (awaiting r) then r
      else
        let r1 = r\<lparr>manager := stopContainer_callback (manager r) (fst e) (snd e),
                   awaiting := removeAll (fst e) (awaiting r)\<rparr>
        in if awaiting r1 = [] then fire Event_set r1 else r1)"

text \<open>
  \<open>event.wait()\<close> returns once the flag is set. Until then the caller is blocked while
  the ends of the processes, \<open>exits\<close>, are reported one after the other; \<open>None\<close> is
  a caller that is still blocked when all of them have been reported.
\<close>

fun event_wait :: "(string \<times> reason) list \<Rightarrow> shutdownRun \<Rightarrow> shutdownRun option" where
  "event_wait [] r = (if eventFlag r then Some r else None)"
| "event_wait (e # rest) r =
     (if eventFlag r then Some r else event_wait rest (processEnded e r))"

definition shutdown ::
  "(string \<times> reason) list \<Rightarrow> containerManager \<Rightarrow> containerManager option" where
  "shutdown exits s = map_option manager (event_wait exits (shutdown_stops s))"

text \<open>
  The sixth scenario of the specification: two containers have been started, so both are
  registered and both have their directory and files; and a process that ends with a given
  exit code.
\<close>

definition scenarioTwo :: containerManager where
  "scenarioTwo =
     scenarioManager
       \<lparr>commIDs := [''SATL0042'', ''SATL0043''],
        fs := \<lparr>dirs = {''/opt/rce/conf/SATL0043'', ''/opt/rce/conf/SATL0042'', ''/opt/rce/conf''},
               files = [''/opt/rce/conf/SATL0042/config'' \<mapsto>
                          configContent scenarioManager ''SATL0042'',
                        ''/opt/rce/conf/SATL0042/fstab'' \<mapsto>
                          fstabContent scenarioManager ''SATL0042'' ''/home/ros/A'',
                        ''/opt/rce/conf/SATL0042/upstart'' \<mapsto> upstartContent,
                        ''/opt/rce/conf/SATL0043/config'' \<mapsto>
                          configContent scenarioManager ''SATL0043'',
                        ''/opt/rce/conf/SATL0043/fstab'' \<mapsto>
                          fstabContent scenarioManager ''SATL0043'' ''/home/ros/B'',
                        ''/opt/rce/conf/SATL0043/upstart'' \<mapsto> upstartContent]\<rparr>,
        journal := [''Create files...'', ''Start container...'',
                    ''Create files...'', ''Start container...'']\<rparr>"

definition exited :: "int \<Rightarrow> reason" where
  "exited n = \<lparr>exitCode = n, description = ''process ended''\<rparr>"


section \<open>Properties of the satellite manager\<close>

subsection \<open>Requests and responses\<close>

lemma getNewCommID_fst: "fst (getNewCommID s) = nextDeferred s"
  by (simp add: getNewCommID_def Let_def)

lemma getNewCommID_snd:
  "snd (getNewCommID s) =
     s\<lparr>nextDeferred := Suc (nextDeferred s),
       pendingCommIDReq := pendingCommIDReq s @ [nextDeferred s],
       sent := sent s @ [\<lparr>msgType = ID_REQUEST, dest = MASTER_ADDR, content = []\<rparr>]\<rparr>"
  by (simp add: getNewCommID_def Let_def)

lemma requests_Suc:
  "requests (Suc n) s =
     (fst (getNewCommID s) # fst (requests n (snd (getNewCommID s))),
      snd (requests n (snd (getNewCommID s))))"
  by (simp add: split_beta)

text \<open>The deferreds of \<open>n\<close> requests are the next \<open>n\<close> numbers, in the order of the calls.\<close>

lemma requests_ids: "fst (requests n s) = [nextDeferred s ..< nextDeferred s + n]"
proof (induction n arbitrary: s)
  case 0
  show ?case by simp
next
  case (Suc n)
  show ?case
    unfolding requests_Suc
    by (simp add: Suc.IH getNewCommID_fst getNewCommID_snd upt_conv_Cons del: requests.simps)
qed

text \<open>They are appended to the pending list, and one \<open>ID_REQUEST\<close> goes out for each.\<close>

lemma requests_state:
  "snd (requests n s) =
     s\<lparr>nextDeferred := nextDeferred s + n,
       pendingCommIDReq := pendingCommIDReq s @ [nextDeferred s ..< nextDeferred s + n],
       sent := sent s @ replicate n \<lparr>msgType = ID_REQUEST, dest = MASTER_ADDR, content = []\<rparr>\<rparr>"
proof (induction n arbitrary: s)
  case 0
  show ?case by simp
next
  case (Suc n)
  show ?case
    unfolding requests_Suc
    by (simp add: Suc.IH getNewCommID_snd upt_conv_Cons del: requests.simps)
qed

text \<open>
  Responses take the pending deferreds from the end of the list: as long as there are enough
  of them, the \<open>i\<close>-th response fires the \<open>i\<close>-th deferred counted from the end.
\<close>

lemma responses_pop:
  "length cs \<le> length (pendingCommIDReq s) \<Longrightarrow>
   responses cs s =
     Inr (s\<lparr>pendingCommIDReq :=
             take (length (pendingCommIDReq s) - length cs) (pendingCommIDReq s),
           callbacks := callbacks s @ zip (rev (pendingCommIDReq s)) cs\<rparr>)"
proof (induction cs arbitrary: s)
  case Nil
  show ?case by simp
next
  case (Cons c cs)
  let ?ps = "pendingCommIDReq s"
  from Cons.prems have ne: "?ps \<noteq> []" by auto
  let ?s1 = "s\<lparr>pendingCommIDReq := butlast ?ps, callbacks := callbacks s @ [(last ?ps, c)]\<rparr>"
  have step: "setNewCommID s c = (Inr (), ?s1)"
    using ne by (simp add: setNewCommID_def)
  have len: "length cs \<le> length (pendingCommIDReq ?s1)"
    using Cons.prems by simp
  have "rev ?ps = rev (butlast ?ps @ [last ?ps])"
    using ne by simp
  then have revps: "rev ?ps = last ?ps # rev (butlast ?ps)"
    by simp
  have tk: "take (length (butlast ?ps) - length cs) (butlast ?ps) =
            take (length ?ps - length (c # cs)) ?ps"
    by (simp add: butlast_conv_take)
  show ?case
    using Cons.IH [OF len] step tk by (simp add: revps)
qed

lemma responses_after_requests:
  "length cs \<le> n \<Longrightarrow>
   responses cs (snd (requests n s)) =
     Inr ((snd (requests n s))
           \<lparr>pendingCommIDReq := pendingCommIDReq s @ take (n - length cs) (fst (requests n s)),
            callbacks := callbacks s @ zip (rev (fst (requests n s))) cs\<rparr>)"
proof -
  assume le: "length cs \<le> n"
  let ?s1 = "snd (requests n s)"
  have ps: "pendingCommIDReq ?s1 = pendingCommIDReq s @ fst (requests n s)"
    by (simp add: requests_state requests_ids)
  have cb: "callbacks ?s1 = callbacks s"
    by (simp add: requests_state)
  have len: "length cs \<le> length (pendingCommIDReq ?s1)"
    using le by (simp add: ps requests_ids)
  have z: "zip (rev (pendingCommIDReq ?s1)) cs = zip (rev (fst (requests n s))) cs"
    using le by (simp add: ps requests_ids zip_append1)
  have t: "take (length (pendingCommIDReq ?s1) - length cs) (pendingCommIDReq ?s1) =
           pendingCommIDReq s @ take (n - length cs) (fst (requests n s))"
    using le by (simp add: ps requests_ids)
  show ?thesis
    using responses_pop [OF len] by (simp only: z t cb)
qed

lemma map_of_fresh:
  "list_all (\<lambda>(d, c). d < (k::nat)) xs \<Longrightarrow> k \<le> d \<Longrightarrow> map_of xs d = None"
  by (induction xs) auto

lemma lifo_lookup:
  assumes "length cs = n" "i < n"
  shows "map_of (zip (rev [k ..< k + n]) cs) ([k ..< k + n] ! i) = Some (rev cs ! i)"
proof -
  let ?ids = "[k ..< k + n]"
  have d: "distinct (rev ?ids)" by simp
  have l: "length (rev ?ids) = length cs" using assms by simp
  have j: "n - Suc i < length cs" using assms by simp
  have "map_of (zip (rev ?ids) cs) (rev ?ids ! (n - Suc i)) = Some (cs ! (n - Suc i))"
    using map_of_zip_nth [OF l d j] .
  moreover have "rev ?ids ! (n - Suc i) = ?ids ! i"
    using assms by (simp add: rev_nth)
  moreover have "rev cs ! i = cs ! (n - Suc i)"
    using assms by (simp add: rev_nth)
  ultimately show ?thesis by simp
qed

text \<open>
  The hypotheses \<open>firedEarlier\<close> and \<open>issueOrdered\<close> hold at the start and are
  kept by both operations.
\<close>

lemma firedEarlier_init: "firedEarlier SatelliteManager_init"
  by (simp add: firedEarlier_def SatelliteManager_init_def)

lemma firedEarlier_getNewCommID: "firedEarlier s \<Longrightarrow> firedEarlier (snd (getNewCommID s))"
  by (auto simp: firedEarlier_def getNewCommID_snd list_all_iff)

lemma firedEarlier_setNewCommID:
  "firedEarlier s \<Longrightarrow> issueOrdered s \<Longrightarrow> firedEarlier (snd (setNewCommID s commID))"
  by (auto simp: firedEarlier_def issueOrdered_def setNewCommID_def list_all_iff)

lemma issueOrdered_init: "issueOrdered SatelliteManager_init"
  by (simp add: issueOrdered_def SatelliteManager_init_def)

lemma issueOrdered_getNewCommID: "issueOrdered s \<Longrightarrow> issueOrdered (snd (getNewCommID s))"
  by (auto simp: issueOrdered_def getNewCommID_snd sorted_wrt_append list_all_iff)

lemma issueOrdered_setNewCommID: "issueOrdered s \<Longrightarrow> issueOrdered (snd (setNewCommID s commID))"
proof -
  assume a: "issueOrdered s"
  show ?thesis
  proof (cases "pendingCommIDReq s = []")
    case True
    then show ?thesis using a by (simp add: setNewCommID_def)
  next
    case False
    then have "pendingCommIDReq s = butlast (pendingCommIDReq s) @ [last (pendingCommIDReq s)]"
      by simp
    then have "sorted_wrt (<) (butlast (pendingCommIDReq s) @ [last (pendingCommIDReq s)])"
      using a by (simp add: issueOrdered_def)
    then have "sorted_wrt (<) (butlast (pendingCommIDReq s))"
      by (simp add: sorted_wrt_append)
    moreover have "list_all (\<lambda>d. d < nextDeferred s) (butlast (pendingCommIDReq s))"
      using a by (auto simp: issueOrdered_def list_all_iff dest: in_set_butlastD)
    ultimately show ?thesis
      using False by (simp add: setNewCommID_def issueOrdered_def)
  qed
qed

text \<open>In such a list the last entry is the newest request.\<close>

lemma last_is_newest:
  "sorted_wrt (<) (ps :: nat list) \<Longrightarrow> ps \<noteq> [] \<Longrightarrow> last ps = Max (set ps)"
proof (induction ps)
  case Nil
  then show ?case by simp
next
  case (Cons p ps)
  show ?case
  proof (cases "ps = []")
    case True
    then show ?thesis by simp
  next
    case False
    from Cons.prems have below: "\<forall>q \<in> set ps. p < q" and sorted: "sorted_wrt (<) ps"
      by simp_all
    have l: "last ps = Max (set ps)"
      using Cons.IH sorted False by simp
    have "last ps \<in> set ps"
      using False by simp
    with below have "p < last ps" by blast
    then have "max p (Max (set ps)) = Max (set ps)"
      using l by simp
    then show ?thesis
      using False l by simp
  qed
qed

text \<open>
  C1, as the code has it. \<open>setNewCommID\<close> pops the pending list at the end to which
  \<open>_getNewCommID\<close> appends. So when \<open>n\<close> requests are issued and then \<open>n\<close>
  responses arrive, all of them are answered, the requests that were pending before stay
  pending, and the responses fire the new deferreds newest first: the \<open>i\<close>-th request is
  resolved with the \<open>i\<close>-th response counted from the end. In any interleaving, a
  response completes the newest slot that is pending.
\<close>

theorem newest_request_first:
  "(\<exists>s2. responses cs (snd (requests (length cs) s)) = Inr s2 \<and>
         pendingCommIDReq s2 = pendingCommIDReq s \<and>
         callbacks s2 = callbacks s @ zip (rev (fst (requests (length cs) s))) cs \<and>
         (firedEarlier s \<longrightarrow> lifoResolution s cs)) \<and>
   (issueOrdered s \<and> pendingCommIDReq s \<noteq> [] \<longrightarrow>
      callbacks (snd (setNewCommID s commID)) =
        callbacks s @ [(Max (set (pendingCommIDReq s)), commID)])"
proof -
  let ?n = "length cs"
  let ?ids = "fst (requests ?n s)"
  let ?s2 = "(snd (requests ?n s))
           \<lparr>pendingCommIDReq := pendingCommIDReq s @ take (?n - length cs) ?ids,
            callbacks := callbacks s @ zip (rev ?ids) cs\<rparr>"
  have run: "responses cs (snd (requests ?n s)) = Inr ?s2"
    by (rule responses_after_requests) simp
  have "map (resolvedWith ?s2) ?ids = map Some (rev cs)" if fresh: "firedEarlier s"
  proof (rule nth_equalityI)
    show "length (map (resolvedWith ?s2) ?ids) = length (map Some (rev cs))"
      by (simp add: requests_ids)
  next
    fix i
    assume "i < length (map (resolvedWith ?s2) ?ids)"
    then have i: "i < ?n" by (simp add: requests_ids)
    have ge: "nextDeferred s \<le> [nextDeferred s ..< nextDeferred s + ?n] ! i"
      using i by simp
    have "resolvedWith ?s2 (?ids ! i) =
          map_of (zip (rev [nextDeferred s ..< nextDeferred s + ?n]) cs)
            ([nextDeferred s ..< nextDeferred s + ?n] ! i)"
      using fresh ge
      by (simp add: resolvedWith_def requests_ids firedEarlier_def map_of_fresh map_add_def
          del: nth_upt)
    also have "\<dots> = Some (rev cs ! i)"
      by (rule lifo_lookup) (simp_all add: i)
    finally show "map (resolvedWith ?s2) ?ids ! i = map Some (rev cs) ! i"
      using i by (simp add: requests_ids del: nth_upt)
  qed
  then have "firedEarlier s \<longrightarrow> lifoResolution s cs"
    by (simp add: lifoResolution_def run)
  then have batch: "\<exists>s2. responses cs (snd (requests (length cs) s)) = Inr s2 \<and>
         pendingCommIDReq s2 = pendingCommIDReq s \<and>
         callbacks s2 = callbacks s @ zip (rev (fst (requests (length cs) s))) cs \<and>
         (firedEarlier s \<longrightarrow> lifoResolution s cs)"
    using run by simp
  have step: "issueOrdered s \<and> pendingCommIDReq s \<noteq> [] \<longrightarrow>
      callbacks (snd (setNewCommID s commID)) =
        callbacks s @ [(Max (set (pendingCommIDReq s)), commID)]"
    by (simp add: setNewCommID_def issueOrdered_def last_is_newest)
  from batch step show ?thesis by blast
qed

text \<open>
  The third scenario of the specification, run on the code: three requests, then the
  responses \<open>X1\<close>, \<open>X2\<close>, \<open>X3\<close>. The third request receives \<open>X1\<close> and the first
  \<open>X3\<close>.
\<close>

theorem newest_request_first_witness:
  "firedEarlier SatelliteManager_init \<and>
   lifoResolution SatelliteManager_init [''X1'', ''X2'', ''X3''] \<and>
   (\<exists>s2. responses [''X1'', ''X2'', ''X3''] (snd (requests 3 SatelliteManager_init)) = Inr s2 \<and>
         pendingCommIDReq s2 = [] \<and>
         callbacks s2 = [(2, ''X1''), (1, ''X2''), (0, ''X3'')]) \<and>
   issueOrdered (snd (requests 3 SatelliteManager_init)) \<and>
   pendingCommIDReq (snd (requests 3 SatelliteManager_init)) = [0, 1, 2] \<and>
   callbacks (snd (setNewCommID (snd (requests 3 SatelliteManager_init)) ''X1'')) = [(2, ''X1'')]"
proof -
  have n: "length [''X1'', ''X2'', ''X3''] = 3"
    by simp
  have ids: "fst (requests 3 SatelliteManager_init) = [0, 1, 2]"
    by (simp add: requests_ids SatelliteManager_init_def upt_conv_Cons)
  have p: "pendingCommIDReq SatelliteManager_init = []" "callbacks SatelliteManager_init = []"
    by (simp_all add: SatelliteManager_init_def)
  have r: "snd (requests 3 SatelliteManager_init) =
     SatelliteManager_init\<lparr>nextDeferred := 3, pendingCommIDReq := [0, 1, 2],
       sent := replicate 3 \<lparr>msgType = ID_REQUEST, dest = MASTER_ADDR, content = []\<rparr>\<rparr>"
    by (simp add: requests_state SatelliteManager_init_def upt_conv_Cons)
  have o: "issueOrdered (snd (requests 3 SatelliteManager_init))"
    by (simp add: r issueOrdered_def)
  have q: "pendingCommIDReq (snd (requests 3 SatelliteManager_init)) = [0, 1, 2]"
    "callbacks (snd (requests 3 SatelliteManager_init)) = []"
    unfolding r by (simp_all add: SatelliteManager_init_def)
  have batch: "\<exists>s2. responses [''X1'', ''X2'', ''X3''] (snd (requests 3 SatelliteManager_init)) = Inr s2 \<and>
         pendingCommIDReq s2 = [] \<and>
         callbacks s2 = [(2, ''X1''), (1, ''X2''), (0, ''X3'')]"
    and lifo: "lifoResolution SatelliteManager_init [''X1'', ''X2'', ''X3'']"
    using firedEarlier_init
      newest_request_first [of "[''X1'', ''X2'', ''X3'']" SatelliteManager_init]
    unfolding n ids p by (auto simp del: responses.simps)
  have step: "callbacks (snd (setNewCommID (snd (requests 3 SatelliteManager_init)) ''X1'')) =
      [(2, ''X1'')]"
    using o newest_request_first [of _ "snd (requests 3 SatelliteManager_init)" "''X1''"]
    by (simp add: q)
  show ?thesis
    using firedEarlier_init lifo batch o q(1) step by blast
qed

text \<open>
  C1 as the specification states it fails on that scenario: the first request is not resolved
  with the first response.
\<close>

theorem fifo_resolution_counterexample:
  "\<not> fifoResolution SatelliteManager_init [''X1'', ''X2'', ''X3'']"
  by (simp add: fifoResolution_def SatelliteManager_init_def getNewCommID_def
      setNewCommID_def resolvedWith_def Let_def)

text \<open>
  C10: \<open>setNewCommID\<close> needs a pending request. With at least one pending, the call
  returns normally, removes exactly one entry of the pending list (the last one) and fires
  that deferred with the given address. With none pending, it raises \<open>IndexError\<close>, the
  exception of \<open>pop\<close> on an empty list, and leaves the state as it was.
\<close>

theorem setNewCommID_pops_or_raises:
  "(pendingCommIDReq s \<noteq> [] \<longrightarrow>
      fst (setNewCommID s commID) = Inr () \<and>
      pendingCommIDReq (snd (setNewCommID s commID)) = butlast (pendingCommIDReq s) \<and>
      Suc (length (pendingCommIDReq (snd (setNewCommID s commID)))) =
        length (pendingCommIDReq s) \<and>
      callbacks (snd (setNewCommID s commID)) =
        callbacks s @ [(last (pendingCommIDReq s), commID)]) \<and>
   (pendingCommIDReq s = [] \<longrightarrow> setNewCommID s commID = (Inl IndexError, s))"
proof (cases "pendingCommIDReq s = []")
  case True
  then have "setNewCommID s commID = (Inl IndexError, s)"
    by (simp add: setNewCommID_def)
  with True show ?thesis by simp
next
  case False
  then have popped: "setNewCommID s commID =
      (Inr (), s\<lparr>pendingCommIDReq := butlast (pendingCommIDReq s),
                callbacks := callbacks s @ [(last (pendingCommIDReq s), commID)]\<rparr>)"
    by (simp add: setNewCommID_def)
  have "Suc (length (butlast (pendingCommIDReq s))) = length (pendingCommIDReq s)"
    using False by simp
  with False popped show ?thesis by simp
qed

theorem setNewCommID_pops_or_raises_witness:
  "pendingCommIDReq (snd (getNewCommID SatelliteManager_init)) \<noteq> [] \<and>
   fst (setNewCommID (snd (getNewCommID SatelliteManager_init)) ''SATL0042'') = Inr () \<and>
   pendingCommIDReq (snd (setNewCommID (snd (getNewCommID SatelliteManager_init)) ''SATL0042'')) =
     [] \<and>
   callbacks (snd (setNewCommID (snd (getNewCommID SatelliteManager_init)) ''SATL0042'')) =
     [(0, ''SATL0042'')] \<and>
   pendingCommIDReq SatelliteManager_init = [] \<and>
   setNewCommID SatelliteManager_init ''SATL0042'' = (Inl IndexError, SatelliteManager_init)"
  using setNewCommID_pops_or_raises [of "snd (getNewCommID SatelliteManager_init)" "''SATL0042''"]
    setNewCommID_pops_or_raises [of SatelliteManager_init "''SATL0042''"]
  by (simp add: getNewCommID_def SatelliteManager_init_def Let_def)

subsection \<open>The owner check\<close>

lemma getContainer_rejects:
  "map_of (containers s) containerID = None \<or>
   (\<exists>c. map_of (containers s) containerID = Some c \<and> robotID \<noteq> ownerRobot c) \<Longrightarrow>
   \<exists>msg. getContainer s robotID containerID = Inl (InvalidRequest msg)"
  by (auto simp: getContainer_def checkOwner_def)

text \<open>The owner's own request goes through: the record is stopped and deleted.\<close>

lemma destroyContainer_owner:
  "map_of (containers s) containerID = Some c \<Longrightarrow> robotID = ownerRobot c \<Longrightarrow>
   destroyContainer E s robotID containerID =
     (Inr (), s\<lparr>sent := sent s @ stop E c,
               containers := AList.delete containerID (containers s)\<rparr>)"
  by (simp add: destroyContainer_def getContainer_def checkOwner_def)

text \<open>
  C4: when \<open>containerID\<close> matches no registered container, or the robot is not the owner
  of the container it matches, \<open>destroyContainer\<close> and the other owner-checked operations
  (\<open>addNode\<close>, \<open>removeNode\<close>, \<open>sendROSMsgToContainer\<close>, \<open>sendROSMsgToRobot\<close>) raise
  \<open>InvalidRequest\<close> and leave the manager, its container map included, as it was.
\<close>

theorem owner_check_rejects:
  "map_of (containers s) containerID = None \<or>
   (\<exists>c. map_of (containers s) containerID = Some c \<and> robotID \<noteq> ownerRobot c) \<Longrightarrow>
   (\<exists>msg. destroyContainer E s robotID containerID = (Inl (InvalidRequest msg), s)) \<and>
   (\<exists>msg. addNode m s robotID containerID = (Inl (InvalidRequest msg), s)) \<and>
   (\<exists>msg. removeNode m s robotID containerID = (Inl (InvalidRequest msg), s)) \<and>
   (\<exists>msg. sendROSMsgToContainer m s robotID containerID = (Inl (InvalidRequest msg), s)) \<and>
   (\<exists>msg. sendROSMsgToRobot m s robotID containerID = (Inl (InvalidRequest msg), s))"
proof -
  assume "map_of (containers s) containerID = None \<or>
   (\<exists>c. map_of (containers s) containerID = Some c \<and> robotID \<noteq> ownerRobot c)"
  then obtain msg where "getContainer s robotID containerID = Inl (InvalidRequest msg)"
    using getContainer_rejects by blast
  then show ?thesis
    by (simp add: destroyContainer_def addNode_def removeNode_def sendROSMsgToContainer_def
        sendROSMsgToRobot_def)
qed

text \<open>
  The second scenario of the specification (\<open>robot-B\<close> asks for the container of
  \<open>robot-A\<close>), and a request for a container that is not registered.
\<close>

theorem owner_check_rejects_witness:
  "map_of (containers scenarioSatellite) ''SATL0042'' = Some scenarioContainer \<and>
   ''robot-B'' \<noteq> ownerRobot scenarioContainer \<and>
   (\<exists>msg. destroyContainer scenarioCollaborators scenarioSatellite ''robot-B'' ''SATL0042'' =
      (Inl (InvalidRequest msg), scenarioSatellite)) \<and>
   (\<exists>msg. addNode scenarioMethod scenarioSatellite ''robot-B'' ''SATL0042'' =
      (Inl (InvalidRequest msg), scenarioSatellite)) \<and>
   map_of (containers scenarioSatellite) ''SATL0007'' = None \<and>
   (\<exists>msg. destroyContainer scenarioCollaborators scenarioSatellite ''robot-A'' ''SATL0007'' =
      (Inl (InvalidRequest msg), scenarioSatellite)) \<and>
   (\<exists>msg. removeNode scenarioMethod scenarioSatellite ''robot-A'' ''SATL0007'' =
      (Inl (InvalidRequest msg), scenarioSatellite))"
proof -
  have a: "map_of (containers scenarioSatellite) ''SATL0042'' = Some scenarioContainer"
    by (simp add: scenarioSatellite_def)
  have b: "''robot-B'' \<noteq> ownerRobot scenarioContainer"
    by (simp add: scenarioContainer_def)
  have c: "map_of (containers scenarioSatellite) ''SATL0007'' = None"
    by (simp add: scenarioSatellite_def)
  from a b have h1: "map_of (containers scenarioSatellite) ''SATL0042'' = None \<or>
     (\<exists>c. map_of (containers scenarioSatellite) ''SATL0042'' = Some c \<and>
          ''robot-B'' \<noteq> ownerRobot c)"
    by blast
  from c have h2: "map_of (containers scenarioSatellite) ''SATL0007'' = None \<or>
     (\<exists>c. map_of (containers scenarioSatellite) ''SATL0007'' = Some c \<and>
          ''robot-A'' \<noteq> ownerRobot c)"
    by blast
  show ?thesis
    using a b c
      owner_check_rejects [OF h1, of scenarioCollaborators scenarioMethod]
      owner_check_rejects [OF h2, of scenarioCollaborators scenarioMethod]
    by blast
qed

subsection \<open>Creating a container\<close>

text \<open>
  C5: once both lookups of \<open>createContainer\<close> have completed, the callback constructs a
  record, starts it and inserts it under the new address exactly when both lookups
  succeeded, the address validates, no record is registered under it and the home folder is
  an existing directory. Otherwise it writes one line to the log and changes neither the
  map nor the messages sent.
\<close>

theorem processRobotSpecs_inserts_iff:
  "(okHome \<and> okID \<and> validateAddress E commID \<and> map_of (containers s) commID = None \<and>
    isdir E homeFolder \<longrightarrow>
      processRobotSpecs E s ((okHome, homeFolder), (okID, commID)) =
        s\<lparr>sent := sent s @ snd (start E (Container E commID homeFolder)),
          containers :=
            AList.update commID (fst (start E (Container E commID homeFolder)))
              (containers s)\<rparr> \<and>
      map_of (containers (processRobotSpecs E s ((okHome, homeFolder), (okID, commID)))) commID =
        Some (fst (start E (Container E commID homeFolder)))) \<and>
   (\<not> (okHome \<and> okID \<and> validateAddress E commID \<and> map_of (containers s) commID = None \<and>
       isdir E homeFolder) \<longrightarrow>
      containers (processRobotSpecs E s ((okHome, homeFolder), (okID, commID))) = containers s \<and>
      sent (processRobotSpecs E s ((okHome, homeFolder), (okID, commID))) = sent s \<and>
      length (log (processRobotSpecs E s ((okHome, homeFolder), (okID, commID)))) =
        Suc (length (log s))) \<and>
   ((map_of (containers (processRobotSpecs E s ((okHome, homeFolder), (okID, commID)))) commID \<noteq>
     map_of (containers s) commID) =
    (okHome \<and> okID \<and> validateAddress E commID \<and> map_of (containers s) commID = None \<and>
     isdir E homeFolder))"
proof -
  let ?r = "processRobotSpecs E s ((okHome, homeFolder), (okID, commID))"
  define ok where
    "ok = (okHome \<and> okID \<and> validateAddress E commID \<and>
           map_of (containers s) commID = None \<and> isdir E homeFolder)"
  have inserted: "?r =
        s\<lparr>sent := sent s @ snd (start E (Container E commID homeFolder)),
          containers :=
            AList.update commID (fst (start E (Container E commID homeFolder)))
              (containers s)\<rparr>" if ok
    using that by (simp add: ok_def processRobotSpecs_def Let_def)
  have found: "map_of (containers ?r) commID =
        Some (fst (start E (Container E commID homeFolder)))" if ok
    unfolding inserted [OF that] by (simp add: update_conv')
  have fresh: "map_of (containers s) commID = None" if ok
    using that by (simp add: ok_def)
  have aborted: "containers ?r = containers s \<and> sent ?r = sent s \<and>
        length (log ?r) = Suc (length (log s))" if "\<not> ok"
    using that by (auto simp: ok_def processRobotSpecs_def Let_def)
  have "(ok \<longrightarrow>
           ?r = s\<lparr>sent := sent s @ snd (start E (Container E commID homeFolder)),
                  containers :=
                    AList.update commID (fst (start E (Container E commID homeFolder)))
                      (containers s)\<rparr> \<and>
           map_of (containers ?r) commID =
             Some (fst (start E (Container E commID homeFolder)))) \<and>
        (\<not> ok \<longrightarrow>
           containers ?r = containers s \<and> sent ?r = sent s \<and>
           length (log ?r) = Suc (length (log s))) \<and>
        ((map_of (containers ?r) commID \<noteq> map_of (containers s) commID) = ok)"
  proof (cases ok)
    case True
    with inserted found fresh show ?thesis by simp
  next
    case False
    with aborted show ?thesis by simp
  qed
  then show ?thesis
    unfolding ok_def .
qed

theorem processRobotSpecs_inserts_iff_witness:
  "validateAddress scenarioCollaborators ''SATL0042'' \<and>
   map_of (containers SatelliteManager_init) ''SATL0042'' = None \<and>
   isdir scenarioCollaborators ''/home/ros/A'' \<and>
   map_of (containers (processRobotSpecs scenarioCollaborators SatelliteManager_init
       ((True, ''/home/ros/A''), (True, ''SATL0042'')))) ''SATL0042'' =
     Some (fst (start scenarioCollaborators
       (Container scenarioCollaborators ''SATL0042'' ''/home/ros/A''))) \<and>
   \<not> isdir scenarioCollaborators ''/home/ros/C'' \<and>
   containers (processRobotSpecs scenarioCollaborators SatelliteManager_init
       ((True, ''/home/ros/C''), (True, ''SATL0042''))) = containers SatelliteManager_init \<and>
   length (log (processRobotSpecs scenarioCollaborators SatelliteManager_init
       ((True, ''/home/ros/C''), (True, ''SATL0042'')))) = Suc (length (log SatelliteManager_init))"
proof -
  have a: "validateAddress scenarioCollaborators ''SATL0042''"
    "isdir scenarioCollaborators ''/home/ros/A''"
    "\<not> isdir scenarioCollaborators ''/home/ros/C''"
    by (simp_all add: scenarioCollaborators_def)
  have b: "map_of (containers SatelliteManager_init) ''SATL0042'' = None"
    by (simp add: SatelliteManager_init_def)
  show ?thesis
    using a b
      processRobotSpecs_inserts_iff [of True True scenarioCollaborators "''SATL0042''"
        SatelliteManager_init "''/home/ros/A''"]
      processRobotSpecs_inserts_iff [of True True scenarioCollaborators "''SATL0042''"
        SatelliteManager_init "''/home/ros/C''"]
    by blast
qed

subsection \<open>The connected flag and the routing\<close>

lemma update_registered_keys:
  "map_of al k = Some c \<Longrightarrow> map fst (AList.update k v al) = map fst al"
proof -
  assume "map_of al k = Some c"
  then have "k \<in> fst ` set al"
    by (metis domI dom_map_of_conv_image_fst)
  then show ?thesis by (simp add: update_keys)
qed

text \<open>
  C6: \<open>setConnectedFlagContainer(address, flag)\<close> raises \<open>InvalidRequest\<close> when the flag
  is true and no record matches; returns without any change when the flag is false and no
  record matches; and otherwise sets the connected flag of the matching record to the flag,
  changing no other record and nothing else of the manager.
\<close>

theorem setConnectedFlagContainer_cases:
  "(map_of (containers s) commID = None \<and> flag \<longrightarrow>
      setConnectedFlagContainer s commID flag =
        (Inl (InvalidRequest ''CommID does not match any container.''), s)) \<and>
   (map_of (containers s) commID = None \<and> \<not> flag \<longrightarrow>
      setConnectedFlagContainer s commID flag = (Inr (), s)) \<and>
   (\<forall>c. map_of (containers s) commID = Some c \<longrightarrow>
      fst (setConnectedFlagContainer s commID flag) = Inr () \<and>
      map_of (containers (snd (setConnectedFlagContainer s commID flag))) commID =
        Some (c\<lparr>connected := flag\<rparr>) \<and>
      (\<forall>other. other \<noteq> commID \<longrightarrow>
         map_of (containers (snd (setConnectedFlagContainer s commID flag))) other =
         map_of (containers s) other) \<and>
      map fst (containers (snd (setConnectedFlagContainer s commID flag))) =
        map fst (containers s) \<and>
      snd (setConnectedFlagContainer s commID flag) =
        s\<lparr>containers := containers (snd (setConnectedFlagContainer s commID flag))\<rparr>)"
  by (auto simp: setConnectedFlagContainer_def setConnectedFlag_def update_conv'
      update_registered_keys)

theorem setConnectedFlagContainer_cases_witness:
  "map_of (containers scenarioSatellite) ''SATL0007'' = None \<and>
   setConnectedFlagContainer scenarioSatellite ''SATL0007'' True =
     (Inl (InvalidRequest ''CommID does not match any container.''), scenarioSatellite) \<and>
   setConnectedFlagContainer scenarioSatellite ''SATL0007'' False = (Inr (), scenarioSatellite) \<and>
   map_of (containers scenarioSatellite) ''SATL0042'' = Some scenarioContainer \<and>
   fst (setConnectedFlagContainer scenarioSatellite ''SATL0042'' True) = Inr () \<and>
   map_of (containers (snd (setConnectedFlagContainer scenarioSatellite ''SATL0042'' True)))
     ''SATL0042'' = Some (scenarioContainer\<lparr>connected := True\<rparr>)"
proof -
  have a: "map_of (containers scenarioSatellite) ''SATL0007'' = None"
    by (simp add: scenarioSatellite_def)
  have b: "map_of (containers scenarioSatellite) ''SATL0042'' = Some scenarioContainer"
    by (simp add: scenarioSatellite_def)
  show ?thesis
    using a b
      setConnectedFlagContainer_cases [of scenarioSatellite "''SATL0007''" True]
      setConnectedFlagContainer_cases [of scenarioSatellite "''SATL0007''" False]
      setConnectedFlagContainer_cases [of scenarioSatellite "''SATL0042''" True]
    by blast
qed

text \<open>
  C7: \<open>getSatelliteRouting\<close> returns exactly the addresses under which records are
  registered in the container map: an address is in the result if and only if the map has
  a record for it. The result stays the same when the connected flags of the records are
  set to anything else, by hand or through \<open>setConnectedFlagContainer\<close>.
\<close>

theorem getSatelliteRouting_is_map_keys:
  "set (getSatelliteRouting s) = dom (map_of (containers s)) \<and>
   (a \<in> set (getSatelliteRouting s)) = (\<exists>c. map_of (containers s) a = Some c) \<and>
   getSatelliteRouting
     (s\<lparr>containers := map (\<lambda>(k, c). (k, c\<lparr>connected := f k c\<rparr>)) (containers s)\<rparr>) =
     getSatelliteRouting s \<and>
   getSatelliteRouting (snd (setConnectedFlagContainer s commID flag)) = getSatelliteRouting s"
proof -
  have 1: "set (getSatelliteRouting s) = dom (map_of (containers s))"
    by (simp add: getSatelliteRouting_def dom_map_of_conv_image_fst)
  have 2: "(a \<in> set (getSatelliteRouting s)) = (\<exists>c. map_of (containers s) a = Some c)"
    unfolding 1 by auto
  have 3: "getSatelliteRouting
     (s\<lparr>containers := map (\<lambda>(k, c). (k, c\<lparr>connected := f k c\<rparr>)) (containers s)\<rparr>) =
     getSatelliteRouting s"
    by (simp add: getSatelliteRouting_def split_beta comp_def)
  have 4: "getSatelliteRouting (snd (setConnectedFlagContainer s commID flag)) =
     getSatelliteRouting s"
    by (cases "map_of (containers s) commID")
      (simp_all add: setConnectedFlagContainer_def getSatelliteRouting_def
        update_registered_keys)
  show ?thesis using 1 2 3 4 by blast
qed

theorem getSatelliteRouting_is_map_keys_witness:
  "getSatelliteRouting scenarioSatellite = [''SATL0042''] \<and>
   set (getSatelliteRouting scenarioSatellite) = dom (map_of (containers scenarioSatellite)) \<and>
   getSatelliteRouting (snd (setConnectedFlagContainer scenarioSatellite ''SATL0042'' True)) =
     [''SATL0042'']"
proof -
  have a: "getSatelliteRouting scenarioSatellite = [''SATL0042'']"
    by (simp add: getSatelliteRouting_def scenarioSatellite_def)
  show ?thesis
    using a getSatelliteRouting_is_map_keys [of scenarioSatellite _ _ "''SATL0042''" True]
    by simp
qed

section \<open>Properties of the container manager\<close>

subsection \<open>What a start leaves untouched\<close>

lemma writeTo_keeps:
  "spawned (snd (writeTo s p text)) = spawned s \<and>
   outbox (snd (writeTo s p text)) = outbox s \<and>
   commIDs (snd (writeTo s p text)) = commIDs s \<and>
   journal (snd (writeTo s p text)) = journal s \<and>
   confDir (snd (writeTo s p text)) = confDir s"
  by (simp add: writeTo_def split: sum.split)

lemma createConfigFile_keeps:
  "spawned (snd (createConfigFile s c)) = spawned s \<and>
   outbox (snd (createConfigFile s c)) = outbox s"
  by (simp add: createConfigFile_def writeTo_keeps)

lemma createFstabFile_keeps:
  "spawned (snd (createFstabFile s c h)) = spawned s \<and>
   outbox (snd (createFstabFile s c h)) = outbox s"
  by (simp add: createFstabFile_def writeTo_keeps)

lemma createUpstartScript_keeps:
  "spawned (snd (createUpstartScript s c)) = spawned s \<and>
   outbox (snd (createUpstartScript s c)) = outbox s"
  by (simp add: createUpstartScript_def writeTo_keeps)

text \<open>
  Whatever the state and the arguments, a start hands nothing to \<open>spawnProcess\<close> and
  nothing to the communication manager; stopping, the sibling path, does spawn.
\<close>

lemma startContainer_internal_never_spawns:
  "spawned (snd (startContainer_internal s commID homeDir)) = spawned s \<and>
   outbox (snd (startContainer_internal s commID homeDir)) = outbox s"
proof -
  have k: "\<And>r t u. createConfigFile u commID = (r, t) \<Longrightarrow>
             spawned t = spawned u \<and> outbox t = outbox u"
    using createConfigFile_keeps by (metis snd_conv)
  have f: "\<And>r t u. createFstabFile u commID homeDir = (r, t) \<Longrightarrow>
             spawned t = spawned u \<and> outbox t = outbox u"
    using createFstabFile_keeps by (metis snd_conv)
  have u: "\<And>r t u. createUpstartScript u commID = (r, t) \<Longrightarrow>
             spawned t = spawned u \<and> outbox t = outbox u"
    using createUpstartScript_keeps by (metis snd_conv)
  show ?thesis
    unfolding startContainer_internal_def
    by (auto split: sum.split prod.split dest!: k f u)
qed

lemma startContainer_never_spawns:
  "spawned (snd (startContainer s commID homeDir)) = spawned s \<and>
   outbox (snd (startContainer s commID homeDir)) = outbox s"
  by (simp add: startContainer_def startContainer_internal_never_spawns)

lemma stopContainer_internal_spawns:
  "spawned (stopContainer_internal s commID) =
     spawned s @ [[''/usr/bin/lxc-stop'', ''-n'', commID]]"
  by (simp add: stopContainer_internal_def)

subsection \<open>The scenarios\<close>

lemma scenario_paths:
  "os_path_join ''/opt/rce/conf'' [''SATL0042''] = ''/opt/rce/conf/SATL0042''"
  "os_path_join ''/opt/rce/conf'' [''SATL0042'', ''config''] = ''/opt/rce/conf/SATL0042/config''"
  "os_path_join ''/opt/rce/conf'' [''SATL0042'', ''fstab''] = ''/opt/rce/conf/SATL0042/fstab''"
  "os_path_join ''/opt/rce/conf'' [''SATL0042'', ''upstart''] = ''/opt/rce/conf/SATL0042/upstart''"
  "os_path_join ''/opt/rce/conf'' [''SATL0099''] = ''/opt/rce/conf/SATL0099''"
  "os_path_join ''/opt/rce/conf'' [''SATL0099'', ''upstart''] = ''/opt/rce/conf/SATL0099/upstart''"
  "os_path_dirname ''/opt/rce/conf/SATL0042'' = ''/opt/rce/conf''"
  "os_path_dirname ''/opt/rce/conf/SATL0042/config'' = ''/opt/rce/conf/SATL0042''"
  "os_path_dirname ''/opt/rce/conf/SATL0042/fstab'' = ''/opt/rce/conf/SATL0042''"
  "os_path_dirname ''/opt/rce/conf/SATL0042/upstart'' = ''/opt/rce/conf/SATL0042''"
  "os_path_dirname ''/opt/rce/conf/SATL0099/upstart'' = ''/opt/rce/conf/SATL0099''"
  by (simp_all add: os_path_join_def join_step_def startswith_slash_def endswith_slash_def
      os_path_dirname_def Let_def)

text \<open>
  C2, on the first scenario of the specification: the directory of \<open>SATL0042\<close> does not
  exist yet. The start makes the directory and writes the three files \<open>config\<close>,
  \<open>fstab\<close> and \<open>upstart\<close>; it builds the command
  \<open>lxc-start -n SATL0042 -f /opt/rce/conf/SATL0042/config -d\<close>; and it returns with
  no process spawned.
\<close>

theorem start_scenario_spawns_nothing:
  "startContainer_internal scenarioManager ''SATL0042'' ''/home/ros/A'' =
     (Inr (),
      scenarioManager
        \<lparr>fs := \<lparr>dirs = {''/opt/rce/conf/SATL0042'', ''/opt/rce/conf''},
                files = [''/opt/rce/conf/SATL0042/config'' \<mapsto>
                           configContent scenarioManager ''SATL0042'',
                         ''/opt/rce/conf/SATL0042/fstab'' \<mapsto>
                           fstabContent scenarioManager ''SATL0042'' ''/home/ros/A'',
                         ''/opt/rce/conf/SATL0042/upstart'' \<mapsto> upstartContent]\<rparr>,
         journal := [''Create files...'', ''Start container...'']\<rparr>) \<and>
   spawned (snd (startContainer_internal scenarioManager ''SATL0042'' ''/home/ros/A'')) = [] \<and>
   lxcStartCmd scenarioManager ''SATL0042'' =
     [''/usr/bin/lxc-start'', ''-n'', ''SATL0042'', ''-f'', ''/opt/rce/conf/SATL0042/config'',
      ''-d'']"
proof -
  have 1: "startContainer_internal scenarioManager ''SATL0042'' ''/home/ros/A'' =
     (Inr (),
      scenarioManager
        \<lparr>fs := \<lparr>dirs = {''/opt/rce/conf/SATL0042'', ''/opt/rce/conf''},
                files = [''/opt/rce/conf/SATL0042/config'' \<mapsto>
                           configContent scenarioManager ''SATL0042'',
                         ''/opt/rce/conf/SATL0042/fstab'' \<mapsto>
                           fstabContent scenarioManager ''SATL0042'' ''/home/ros/A'',
                         ''/opt/rce/conf/SATL0042/upstart'' \<mapsto> upstartContent]\<rparr>,
         journal := [''Create files...'', ''Start container...'']\<rparr>)"
    by (simp add: startContainer_internal_def scenarioManager_def os_path_isdir_def
        os_mkdir_def createConfigFile_def createFstabFile_def createUpstartScript_def
        writeTo_def write_file_def os_path_isabs_def startswith_slash_def scenario_paths
        configContent_def fstabContent_def)
  have 2: "spawned (snd (startContainer_internal scenarioManager ''SATL0042'' ''/home/ros/A'')) = []"
    unfolding 1 by (simp add: scenarioManager_def)
  have 3: "lxcStartCmd scenarioManager ''SATL0042'' =
     [''/usr/bin/lxc-start'', ''-n'', ''SATL0042'', ''-f'', ''/opt/rce/conf/SATL0042/config'',
      ''-d'']"
    by (simp add: lxcStartCmd_def scenarioManager_def scenario_paths)
  show ?thesis using 1 2 3 by blast
qed

text \<open>
  C3, as the code has it: when the directory of the address is on disk already, the start
  request returns normally after writing one line to the log (which line depends on whether
  the address is registered already), and it is aborted: the file system is as before, no
  process is spawned, and no message, so no \<open>ID_DELETE\<close> either, is handed to the
  communication manager.
\<close>

theorem duplicate_directory_aborts:
  "os_path_isdir (fs s) (os_path_join (confDir s) [commID]) \<Longrightarrow>
   fst (startContainer s commID homeDir) = Inr () \<and>
   journal (snd (startContainer s commID homeDir)) =
     journal s @
       [if commID \<in> set (commIDs s)
        then ''There is already a container registered under the same CommID.''
        else ''There exists already a directory with the name \"'' @ commID @ ''\".''] \<and>
   fs (snd (startContainer s commID homeDir)) = fs s \<and>
   spawned (snd (startContainer s commID homeDir)) = spawned s \<and>
   outbox (snd (startContainer s commID homeDir)) = outbox s"
proof (cases "commID \<in> set (commIDs s)")
  case True
  then show ?thesis by (simp add: startContainer_def)
next
  case False
  assume "os_path_isdir (fs s) (os_path_join (confDir s) [commID])"
  then have "startContainer_internal (s\<lparr>commIDs := commIDs s @ [commID]\<rparr>) commID homeDir =
      (Inr (),
       s\<lparr>commIDs := commIDs s @ [commID],
         journal := journal s @
           [''There exists already a directory with the name \"'' @ commID @ ''\".'']\<rparr>)"
    by (simp add: startContainer_internal_def)
  with False show ?thesis by (simp add: startContainer_def)
qed

theorem duplicate_directory_aborts_witness:
  "os_path_isdir (fs scenarioDuplicate) (os_path_join (confDir scenarioDuplicate) [''SATL0099'']) \<and>
   fst (startContainer scenarioDuplicate ''SATL0099'' ''/home/ros/A'') = Inr () \<and>
   journal (snd (startContainer scenarioDuplicate ''SATL0099'' ''/home/ros/A'')) =
     [''There exists already a directory with the name \"SATL0099\".''] \<and>
   fs (snd (startContainer scenarioDuplicate ''SATL0099'' ''/home/ros/A'')) = fs scenarioDuplicate \<and>
   spawned (snd (startContainer scenarioDuplicate ''SATL0099'' ''/home/ros/A'')) = [] \<and>
   outbox (snd (startContainer scenarioDuplicate ''SATL0099'' ''/home/ros/A'')) = []"
proof -
  have d: "os_path_isdir (fs scenarioDuplicate)
             (os_path_join (confDir scenarioDuplicate) [''SATL0099''])"
    by (simp add: scenarioDuplicate_def scenarioManager_def os_path_isdir_def scenario_paths)
  have e: "commIDs scenarioDuplicate = []" "journal scenarioDuplicate = []"
    "spawned scenarioDuplicate = []" "outbox scenarioDuplicate = []"
    by (simp_all add: scenarioDuplicate_def scenarioManager_def)
  show ?thesis
    using d duplicate_directory_aborts [OF d, of "''/home/ros/A''"]
    by (simp add: e)
qed

text \<open>
  C3 as the specification states it fails on its fourth scenario: with the directory of
  \<open>SATL0099\<close> in place, the start does not do all of what is specified, and in
  particular nothing is sent.
\<close>

theorem duplicate_directory_counterexample:
  "os_path_isdir (fs scenarioDuplicate) (os_path_join (confDir scenarioDuplicate) [''SATL0099'']) \<and>
   \<not> duplicateHandledAsSpecified scenarioDuplicate
       (snd (startContainer scenarioDuplicate ''SATL0099'' ''/home/ros/A'')) ''SATL0099'' \<and>
   outbox (snd (startContainer scenarioDuplicate ''SATL0099'' ''/home/ros/A'')) = []"
  by (simp add: duplicateHandledAsSpecified_def startContainer_def startContainer_internal_def
      scenarioDuplicate_def scenarioManager_def os_path_isdir_def scenario_paths)

subsection \<open>The upstart script\<close>

text \<open>Whatever the address, a script that was written has the one fixed text.\<close>

lemma createUpstartScript_text:
  "createUpstartScript s commID = (Inr (), s') \<Longrightarrow>
   files (fs s') (os_path_join (confDir s) [commID, ''upstart'']) = Some upstartContent"
  by (auto simp: createUpstartScript_def writeTo_def write_file_def split: if_splits)

text \<open>
  C8, on the container \<open>SATL0099\<close> whose directory exists: the upstart file is written
  with the fixed text. The address does not occur in it. The line that starts the node
  runs \<open>Dummy.py\<close> as \<open>ros:ros\<close> in \<open>/home/ros\<close>, and the only argument of the
  program is \<open>8090\<close>.
\<close>

theorem upstart_starts_dummy_node:
  "createUpstartScript scenarioDuplicate ''SATL0099'' =
     (Inr (),
      scenarioDuplicate
        \<lparr>fs := \<lparr>dirs = {''/opt/rce/conf'', ''/opt/rce/conf/SATL0099''},
                files = [''/opt/rce/conf/SATL0099/upstart'' \<mapsto> upstartContent]\<rparr>\<rparr>) \<and>
   \<not> sublist ''SATL0099'' upstartContent \<and>
   sublist (CHR 0x09 # ''start-stop-daemon -c ros:ros -d /home/ros --retry 5 --exec python -- /home/ros/lib/framework/Administration/src/Dummy.py 8090\<newline>end script'')
     upstartContent \<and>
   drop 9 upstartCommand =
     [''--'', ''/home/ros/lib/framework/Administration/src/Dummy.py'', ''8090'']"
proof -
  have 1: "createUpstartScript scenarioDuplicate ''SATL0099'' =
     (Inr (),
      scenarioDuplicate
        \<lparr>fs := \<lparr>dirs = {''/opt/rce/conf'', ''/opt/rce/conf/SATL0099''},
                files = [''/opt/rce/conf/SATL0099/upstart'' \<mapsto> upstartContent]\<rparr>\<rparr>)"
    by (simp add: createUpstartScript_def writeTo_def write_file_def scenarioDuplicate_def
        scenarioManager_def scenario_paths)
  have 2: "\<not> sublist ''SATL0099'' upstartContent"
    by code_simp
  have 3: "sublist (CHR 0x09 # ''start-stop-daemon -c ros:ros -d /home/ros --retry 5 --exec python -- /home/ros/lib/framework/Administration/src/Dummy.py 8090\<newline>end script'')
     upstartContent"
    by code_simp
  have 4: "drop 9 upstartCommand =
     [''--'', ''/home/ros/lib/framework/Administration/src/Dummy.py'', ''8090'']"
    by (simp add: upstartCommand_def)
  show ?thesis using 1 2 3 4 by blast
qed

subsection \<open>Shutdown\<close>

lemma scenario_paths_second:
  "os_path_join ''/opt/rce/conf'' [''SATL0043''] = ''/opt/rce/conf/SATL0043''"
  "os_path_join ''/opt/rce/conf'' [''SATL0043'', ''config''] = ''/opt/rce/conf/SATL0043/config''"
  "os_path_join ''/opt/rce/conf'' [''SATL0043'', ''fstab''] = ''/opt/rce/conf/SATL0043/fstab''"
  "os_path_join ''/opt/rce/conf'' [''SATL0043'', ''upstart''] = ''/opt/rce/conf/SATL0043/upstart''"
  "os_path_dirname ''/opt/rce/conf/SATL0043'' = ''/opt/rce/conf''"
  "os_path_dirname ''/opt/rce/conf/SATL0043/config'' = ''/opt/rce/conf/SATL0043''"
  "os_path_dirname ''/opt/rce/conf/SATL0043/fstab'' = ''/opt/rce/conf/SATL0043''"
  "os_path_dirname ''/opt/rce/conf/SATL0043/upstart'' = ''/opt/rce/conf/SATL0043''"
  by (simp_all add: os_path_join_def join_step_def startswith_slash_def endswith_slash_def
      os_path_dirname_def Let_def)

text \<open>The two-container scenario is what two starts of the manager leave.\<close>

lemma scenarioTwo_reached:
  "startContainer (snd (startContainer scenarioManager ''SATL0042'' ''/home/ros/A''))
     ''SATL0043'' ''/home/ros/B'' = (Inr (), scenarioTwo)"
proof -
  have first: "startContainer scenarioManager ''SATL0042'' ''/home/ros/A'' =
     (Inr (),
      scenarioManager
       \<lparr>commIDs := [''SATL0042''],
        fs := \<lparr>dirs = {''/opt/rce/conf/SATL0042'', ''/opt/rce/conf''},
               files = [''/opt/rce/conf/SATL0042/config'' \<mapsto>
                          configContent scenarioManager ''SATL0042'',
                        ''/opt/rce/conf/SATL0042/fstab'' \<mapsto>
                          fstabContent scenarioManager ''SATL0042'' ''/home/ros/A'',
                        ''/opt/rce/conf/SATL0042/upstart'' \<mapsto> upstartContent]\<rparr>,
        journal := [''Create files...'', ''Start container...'']\<rparr>)"
    by (simp add: startContainer_def startContainer_internal_def
        scenarioManager_def os_path_isdir_def os_mkdir_def createConfigFile_def
        createFstabFile_def createUpstartScript_def writeTo_def write_file_def
        os_path_isabs_def startswith_slash_def scenario_paths scenario_paths_second configContent_def
        fstabContent_def)
  show ?thesis
    unfolding first
    by (simp add: startContainer_def startContainer_internal_def scenarioTwo_def
        scenarioManager_def os_path_isdir_def os_mkdir_def createConfigFile_def
        createFstabFile_def createUpstartScript_def writeTo_def write_file_def
        os_path_isabs_def startswith_slash_def scenario_paths scenario_paths_second configContent_def
        fstabContent_def)
qed

text \<open>\<open>shutdown\<close> issues one \<open>lxc-stop\<close> for each registered communication ID.\<close>

lemma stops_spawned:
  "spawned (foldl stopContainer_internal s cs) =
     spawned s @ map (\<lambda>c. [''/usr/bin/lxc-stop'', ''-n'', c]) cs"
  by (induction cs arbitrary: s) (simp_all add: stopContainer_internal_def)

lemma fire_manager: "manager (fire Event_set r) = manager r"
  by (simp add: fire_def call_def)

lemma shutdown_stops_spawned:
  "spawned (manager (shutdown_stops s)) =
     spawned s @ map (\<lambda>c. [''/usr/bin/lxc-stop'', ''-n'', c]) (commIDs s)"
  by (simp add: shutdown_stops_def Let_def fire_manager stops_spawned)

text \<open>
  Nothing sets the flag of the event: the only call of \<open>event.set\<close> passes an argument.
  So the caller of \<open>shutdown\<close> stays blocked, whichever exits are reported.
\<close>

lemma fire_flag: "eventFlag (fire Event_set r) = eventFlag r"
  by (simp add: fire_def call_def)

lemma processEnded_flag: "eventFlag (processEnded e r) = eventFlag r"
  by (simp add: processEnded_def Let_def fire_flag)

lemma event_wait_blocked: "\<not> eventFlag r \<Longrightarrow> event_wait exits r = None"
  by (induction exits arbitrary: r) (simp_all add: processEnded_flag)

lemma shutdown_stops_flag: "\<not> eventFlag (shutdown_stops s)"
  by (simp add: shutdown_stops_def Let_def fire_flag)

lemma shutdown_never_returns: "shutdown exits s = None"
  by (simp add: shutdown_def event_wait_blocked shutdown_stops_flag)

text \<open>Had the callback been called without an argument, the flag would be set.\<close>

lemma call_Event_set: "call Event_set 0 r = Inr (r\<lparr>eventFlag := True\<rparr>)"
  by (simp add: call_def)

text \<open>
  C9, on the two registered containers: \<open>shutdown\<close> spawns \<open>lxc-stop\<close> for each of
  them; when both processes have ended with exit code 0, both directories and their files
  are deleted and no deferred is left to wait for; but the event is not set, and
  \<open>shutdown\<close> does not return.
\<close>

theorem shutdown_scenario_blocks:
  "spawned (manager (shutdown_stops scenarioTwo)) =
     [[''/usr/bin/lxc-stop'', ''-n'', ''SATL0042''], [''/usr/bin/lxc-stop'', ''-n'', ''SATL0043'']] \<and>
   dirs (fs (manager (processEnded (''SATL0043'', exited 0)
     (processEnded (''SATL0042'', exited 0) (shutdown_stops scenarioTwo))))) =
     {''/opt/rce/conf''} \<and>
   files (fs (manager (processEnded (''SATL0043'', exited 0)
     (processEnded (''SATL0042'', exited 0) (shutdown_stops scenarioTwo)))))
     ''/opt/rce/conf/SATL0042/config'' = None \<and>
   awaiting (processEnded (''SATL0043'', exited 0)
     (processEnded (''SATL0042'', exited 0) (shutdown_stops scenarioTwo))) = [] \<and>
   \<not> eventFlag (processEnded (''SATL0043'', exited 0)
     (processEnded (''SATL0042'', exited 0) (shutdown_stops scenarioTwo))) \<and>
   shutdown [(''SATL0042'', exited 0), (''SATL0043'', exited 0)] scenarioTwo = None"
proof -
  have stops: "shutdown_stops scenarioTwo =
     \<lparr>manager = scenarioTwo\<lparr>spawned := [[''/usr/bin/lxc-stop'', ''-n'', ''SATL0042''],
                                          [''/usr/bin/lxc-stop'', ''-n'', ''SATL0043'']]\<rparr>,
      awaiting = [''SATL0042'', ''SATL0043''], eventFlag = False\<rparr>"
    by (simp add: shutdown_stops_def Let_def stopContainer_internal_def scenarioTwo_def
        scenarioManager_def)
  have under:
    "below ''/opt/rce/conf/SATL0042'' ''/opt/rce/conf/SATL0042''"
    "\<not> below ''/opt/rce/conf/SATL0042'' ''/opt/rce/conf/SATL0043''"
    "\<not> below ''/opt/rce/conf/SATL0042'' ''/opt/rce/conf''"
    "below ''/opt/rce/conf/SATL0043'' ''/opt/rce/conf/SATL0043''"
    "\<not> below ''/opt/rce/conf/SATL0043'' ''/opt/rce/conf''"
    by (simp_all add: below_def)
  have 1: "spawned (manager (shutdown_stops scenarioTwo)) =
     [[''/usr/bin/lxc-stop'', ''-n'', ''SATL0042''], [''/usr/bin/lxc-stop'', ''-n'', ''SATL0043'']]"
    unfolding stops by simp
  have 2: "dirs (fs (manager (processEnded (''SATL0043'', exited 0)
     (processEnded (''SATL0042'', exited 0) (shutdown_stops scenarioTwo))))) =
     {''/opt/rce/conf''}"
    unfolding stops
    by (auto simp: processEnded_def Let_def stopContainer_callback_def exited_def
        shutil_rmtree_def fire_def call_def scenarioTwo_def scenarioManager_def
        scenario_paths scenario_paths_second under)
  have 3: "files (fs (manager (processEnded (''SATL0043'', exited 0)
     (processEnded (''SATL0042'', exited 0) (shutdown_stops scenarioTwo)))))
     ''/opt/rce/conf/SATL0042/config'' = None"
    unfolding stops
    by (simp add: processEnded_def Let_def stopContainer_callback_def exited_def
        shutil_rmtree_def fire_def call_def scenarioTwo_def scenarioManager_def
        scenario_paths scenario_paths_second below_def)
  have 4: "awaiting (processEnded (''SATL0043'', exited 0)
     (processEnded (''SATL0042'', exited 0) (shutdown_stops scenarioTwo))) = []"
    unfolding stops
    by (simp add: processEnded_def Let_def fire_def call_def)
  have 5: "\<not> eventFlag (processEnded (''SATL0043'', exited 0)
     (processEnded (''SATL0042'', exited 0) (shutdown_stops scenarioTwo)))"
    by (simp add: processEnded_flag shutdown_stops_flag)
  have 6: "shutdown [(''SATL0042'', exited 0), (''SATL0043'', exited 0)] scenarioTwo = None"
    by (rule shutdown_never_returns)
  show ?thesis using 1 2 3 4 5 6 by blast
qed

end
